theory Spec2Isabelle
  imports Main
begin

section \<open>Zero-Shot (ZK Fog-of-War): the game client's state machine\<close>

text \<open>
  The development follows \<^verbatim>\<open>src/App.tsx\<close> (the second file inside
  \<^verbatim>\<open>src/src/main.tsx\<close>): section 2 of the source gives the data model,
  section 7 the reducer \<^verbatim>\<open>gameReducer\<close> and its selectors, section 8 the voice
  parser \<^verbatim>\<open>parseVoice\<close>, section 21 the handlers \<^verbatim>\<open>handleFire\<close>,
  \<^verbatim>\<open>handlePlace\<close> and \<^verbatim>\<open>handleAbort\<close> of the root component.

  Conventions of the embedding.
  \<^item> A TypeScript \<^verbatim>\<open>number\<close> that holds a cell index, a session id, a stake, a
    balance, a counter or a \<^verbatim>\<open>Date.now()\<close> reading is an \<^typ>\<open>int\<close>: the source
    produces these by \<^verbatim>\<open>parseInt\<close>, \<^verbatim>\<open>Math.floor\<close> and integer arithmetic only.
  \<^item> The reducer reads the wall clock (\<^verbatim>\<open>Date.now()\<close>, and \<^verbatim>\<open>nowts()\<close> inside
    \<^verbatim>\<open>mkLog\<close>). The clock is an explicit argument: a \<open>clock\<close> gives the value of the
    \<open>k\<close>-th call of each of the two functions during one evaluation of the reducer,
    in the order in which JavaScript evaluates them.
  \<^item> Random and generated values of the handlers (\<^verbatim>\<open>hex\<close>, \<^verbatim>\<open>txId\<close>, \<^verbatim>\<open>rnd\<close>,
    \<^verbatim>\<open>datets\<close>) are fields of an environment record.
  \<^item> A log message is kept as the template it was built from together with the values
    interpolated into it, not as rendered text: the text contains glyphs outside ASCII
    and number formatting, and no property below reads it.
  \<^item> Sound, e-mail alerts, screen routing and rendering are external collaborators and
    are left out, and so is the snapshot in \<^verbatim>\<open>localStorage\<close> (\<^verbatim>\<open>persistGame\<close> and
    the restore at start-up), which none of the handlers below reads.
\<close>

subsection \<open>Data model (section 2 of the source)\<close>

datatype CellKind = Fog | Empty | Unit | Hit | Miss | Targeted

text \<open>
  The phases \<^verbatim>\<open>'setup' | 'placement' | 'battle' | 'ended'\<close>, and the cell kinds above,
  are capitalised: several of the source's words are reserved in Isabelle.
\<close>

datatype GamePhase = Setup | Placement | Battle | Ended

text \<open>\<^verbatim>\<open>type WinnerKind = 'you' | 'foe' | null\<close>; \<open>NoWinner\<close> is \<^verbatim>\<open>null\<close>.\<close>

datatype WinnerKind = You | Foe | NoWinner

datatype ZKState =
    IDLE
  | WITNESS_GENERATION
  | CIRCUIT_COMPILATION
  | PROOF_GENERATION
  | ON_CHAIN_VERIFICATION
  | VERIFICATION_SUCCESS
  | VERIFICATION_FAILURE

record ZKProofContext =
  state :: ZKState
  targetIndex :: int
  witnessHex :: string
  proofHex :: string
  verifyTxHash :: string
  startedAt :: int
  resolvedAt :: int
  errorMsg :: string
  isHit :: bool

datatype LogType = L_sys | L_zk | L_fire | L_hit | L_miss | L_wallet | L_warn

text \<open>
  The message templates of the source, one constructor per template literal, with the
  interpolated values as arguments (a cell index where the source renders
  \<^verbatim>\<open>coord(index)\<close>, the elapsed milliseconds where it renders seconds with two
  decimals).
\<close>

datatype LogMsg =
    SessionInitialised int int
  | ConnectingToHub
  | StakeTxConfirmed string
  | ProvingKeyLoaded
  | PlaceYourUnit
  | UnitPlacedAt int
  | CommitmentConfirmed
  | OpponentCommitted
  | BattleStart
  | TurnPrompt bool
  | FiringAt int
  | BuildingWitness
  | WitnessReady string
  | CompilingCircuit
  | CircuitCompiled
  | GeneratingProof
  | ProofBytes string
  | HubVerifyShot
  | Verified int bool
  | VerifyTx string
  | VerificationFailed string
  | TurnRestored
  | ShotResult bool int
  | EnemyFires int bool
  | HubEndGame bool string
  | MissionOutcome bool
  | SessionRestored
  | EnemyComputing
  | HubAddress
  | PoseidonInput int string
  | CommitHash string
  | CommitmentOnChain

text \<open>The field \<^verbatim>\<open>t\<close> of a log entry is called \<open>tag\<close> here.\<close>

record LogEntry =
  ts :: string
  msg :: LogMsg
  tag :: LogType

text \<open>
  A JavaScript array of cells, slot by slot. A write past the end leaves holes; a copy
  (\<^verbatim>\<open>[...g]\<close>) turns a hole into an element that is \<^verbatim>\<open>undefined\<close> (a JSON round
  trip into one that is \<^verbatim>\<open>null\<close>, which behaves alike here). Reading either gives no
  cell kind, but \<^verbatim>\<open>map\<close> and \<^verbatim>\<open>filter\<close> skip holes only.
\<close>

datatype slot = Hole | Undefined | Cell CellKind

type_synonym grid = "slot list"

record GameState =
  phase :: GamePhase
  sid :: int
  stake :: int
  myGrid :: grid
  foeGrid :: grid
  foeUnit :: int
  myUnit :: int
  myTurn :: bool
  shots :: int
  hits :: int
  winner :: WinnerKind
  txIds :: "string list"
  log :: "LogEntry list"
  stakeDeducted :: bool
  zkProof :: ZKProofContext

record clock =
  dateNow :: "nat \<Rightarrow> int"
  nowts :: "nat \<Rightarrow> string"

subsection \<open>Constants and helpers (section 3 of the source)\<close>

definition GRID :: int where
  "GRID = 6"

definition CELLS :: nat where
  "CELLS = 36"

definition MAX_STAKE :: int where
  "MAX_STAKE = 50"

definition mkLog :: "clock \<Rightarrow> nat \<Rightarrow> LogMsg \<Rightarrow> LogType \<Rightarrow> LogEntry" where
  "mkLog c k m t = \<lparr>ts = nowts c k, msg = m, tag = t\<rparr>"

text \<open>\<^verbatim>\<open>xs.slice(-100)\<close>: the last hundred elements, all of them when there are fewer.\<close>

definition slice_last :: "nat \<Rightarrow> 'a list \<Rightarrow> 'a list" where
  "slice_last n xs = drop (length xs - n) xs"

text \<open>
  Reading \<^verbatim>\<open>g[i]\<close>: the cell kind, or \<open>None\<close> for \<^verbatim>\<open>undefined\<close> (a hole, an
  undefined element, an index outside the elements).
\<close>

definition cell_at :: "grid \<Rightarrow> int \<Rightarrow> CellKind option" where
  "cell_at g i =
     (if 0 \<le> i \<and> i < int (length g)
      then (case g ! nat i of Cell k \<Rightarrow> Some k | _ \<Rightarrow> None)
      else None)"

text \<open>The copy \<^verbatim>\<open>[...g]\<close>.\<close>

definition spread :: "grid \<Rightarrow> grid" where
  "spread g = map (\<lambda>x. if x = Hole then Undefined else x) g"

text \<open>
  \<^verbatim>\<open>const g2 = [...g]; g2[i] = v\<close>. Inside the array the element is replaced. Past
  the end JavaScript extends the array, leaving holes. A negative index adds a property
  that is not an element (the next copy drops it); the elements are those of the copy.
  The source reads cells only to compare them with \<^verbatim>\<open>'fog'\<close>, \<^verbatim>\<open>'targeted'\<close>,
  \<^verbatim>\<open>'hit'\<close> and \<^verbatim>\<open>'miss'\<close> at the indices of elements, so such a property is not
  kept in the model.
\<close>

definition set_cell :: "grid \<Rightarrow> int \<Rightarrow> CellKind \<Rightarrow> grid" where
  "set_cell g i v =
     (if i < 0 then spread g
      else if i < int (length g) then (spread g)[nat i := Cell v]
      else spread g @ replicate (nat i - length g) Hole @ [Cell v])"

subsection \<open>The reducer (section 7 of the source)\<close>

definition blankZK :: ZKProofContext where
  "blankZK = \<lparr>state = IDLE, targetIndex = -1, witnessHex = [], proofHex = [],
     verifyTxHash = [], startedAt = 0, resolvedAt = 0, errorMsg = [], isHit = False\<rparr>"

definition blankGame :: GameState where
  "blankGame = \<lparr>phase = Setup, sid = 0, stake = 0,
     myGrid = replicate CELLS (Cell Empty),
     foeGrid = replicate CELLS (Cell Fog),
     foeUnit = -1, myUnit = -1, myTurn = True, shots = 0, hits = 0,
     winner = NoWinner, txIds = [], log = [], stakeDeducted = False,
     zkProof = blankZK\<rparr>"

definition appendLog :: "GameState \<Rightarrow> LogEntry list \<Rightarrow> GameState" where
  "appendLog s entries = s\<lparr>log := slice_last 100 (log s) @ entries\<rparr>"

datatype GameAction =
    GAME_INIT int int int
  | GAME_READY string
  | UNIT_PLACE int
  | BATTLE_BEGIN bool
  | ZK_WITNESS_BEGIN int
  | ZK_WITNESS_DONE string
  | ZK_CIRCUIT_BEGIN
  | ZK_PROOF_BEGIN
  | ZK_PROOF_DONE string
  | ZK_VERIFY_BEGIN
  | ZK_VERIFY_SUCCESS bool string
  | ZK_VERIFY_FAILURE string
  | ZK_RESET
  | SHOT_APPLY int bool
  | ENEMY_STRIKE int bool
  | GAME_OVER WinnerKind string
  | LOG_APPEND "LogEntry list"
  | GAME_RESTORE GameState
  | GAME_RESET

text \<open>
  \<open>gameReducer c s a\<close> is \<^verbatim>\<open>gameReducer(state, action)\<close> evaluated while the clock
  reads \<open>c\<close>. The payload fields of an action are the constructor's arguments in the
  order of the source's type (\<open>GAME_INIT sid stake foeUnit\<close>,
  \<open>ZK_VERIFY_SUCCESS isHit verifyTxHash\<close>, \<open>SHOT_APPLY index isHit\<close>,
  \<open>GAME_OVER winner txId\<close>).
\<close>

fun gameReducer :: "clock \<Rightarrow> GameState \<Rightarrow> GameAction \<Rightarrow> GameState" where
  "gameReducer c s (GAME_INIT sid' stake' foeUnit') =
     appendLog (blankGame\<lparr>phase := Setup, sid := sid', stake := stake', foeUnit := foeUnit'\<rparr>)
       [mkLog c 0 (SessionInitialised sid' stake') L_sys,
        mkLog c 1 ConnectingToHub L_sys]"
| "gameReducer c s (GAME_READY txId) =
     appendLog (s\<lparr>phase := Placement, stakeDeducted := True, txIds := [txId]\<rparr>)
       [mkLog c 0 (StakeTxConfirmed (take 12 txId)) L_wallet,
        mkLog c 1 ProvingKeyLoaded L_zk,
        mkLog c 2 PlaceYourUnit L_sys]"
| "gameReducer c s (UNIT_PLACE index) =
     appendLog (s\<lparr>myGrid := set_cell (myGrid s) index Unit, myUnit := index\<rparr>)
       [mkLog c 0 (UnitPlacedAt index) L_zk]"
| "gameReducer c s (BATTLE_BEGIN turn) =
     appendLog (s\<lparr>phase := Battle, myTurn := turn\<rparr>)
       [mkLog c 0 CommitmentConfirmed L_zk,
        mkLog c 1 OpponentCommitted L_sys,
        mkLog c 2 BattleStart L_sys,
        mkLog c 3 (TurnPrompt turn) L_sys]"
| "gameReducer c s (ZK_WITNESS_BEGIN index) =
     appendLog
       (s\<lparr>myTurn := False,
          zkProof := blankZK\<lparr>state := WITNESS_GENERATION, targetIndex := index,
                              startedAt := dateNow c 0\<rparr>\<rparr>)
       [mkLog c 0 (FiringAt index) L_fire,
        mkLog c 1 BuildingWitness L_zk]"
| "gameReducer c s (ZK_WITNESS_DONE w) =
     (if state (zkProof s) \<noteq> WITNESS_GENERATION then s
      else appendLog
        (s\<lparr>zkProof := (zkProof s)\<lparr>state := CIRCUIT_COMPILATION, witnessHex := w\<rparr>\<rparr>)
        [mkLog c 0 (WitnessReady (take 16 w)) L_zk,
         mkLog c 1 CompilingCircuit L_zk])"
| "gameReducer c s ZK_CIRCUIT_BEGIN =
     (if state (zkProof s) \<noteq> CIRCUIT_COMPILATION then s
      else appendLog s [mkLog c 0 CircuitCompiled L_zk])"
| "gameReducer c s ZK_PROOF_BEGIN =
     appendLog (s\<lparr>zkProof := (zkProof s)\<lparr>state := PROOF_GENERATION\<rparr>\<rparr>)
       [mkLog c 0 GeneratingProof L_zk]"
| "gameReducer c s (ZK_PROOF_DONE p) =
     (if state (zkProof s) \<noteq> PROOF_GENERATION then s
      else appendLog
        (s\<lparr>zkProof := (zkProof s)\<lparr>state := ON_CHAIN_VERIFICATION, proofHex := p\<rparr>\<rparr>)
        [mkLog c 0 (ProofBytes (take 16 p)) L_zk])"
| "gameReducer c s ZK_VERIFY_BEGIN =
     appendLog s [mkLog c 0 HubVerifyShot L_zk]"
| "gameReducer c s (ZK_VERIFY_SUCCESS h tx) =
     (if state (zkProof s) \<noteq> ON_CHAIN_VERIFICATION then s
      else appendLog
        (s\<lparr>zkProof := (zkProof s)\<lparr>state := VERIFICATION_SUCCESS, isHit := h,
                                     verifyTxHash := tx, resolvedAt := dateNow c 1\<rparr>\<rparr>)
        [mkLog c 0 (Verified (dateNow c 0 - startedAt (zkProof s)) h) L_zk,
         mkLog c 1 (VerifyTx (take 12 tx)) L_wallet])"
| "gameReducer c s (ZK_VERIFY_FAILURE e) =
     appendLog
       (s\<lparr>zkProof := (zkProof s)\<lparr>state := VERIFICATION_FAILURE, errorMsg := e,
                                    resolvedAt := dateNow c 0\<rparr>,
          myTurn := True\<rparr>)
       [mkLog c 0 (VerificationFailed e) L_warn,
        mkLog c 1 TurnRestored L_warn]"
| "gameReducer c s ZK_RESET =
     s\<lparr>zkProof := blankZK, myTurn := True\<rparr>"
| "gameReducer c s (SHOT_APPLY index h) =
     appendLog
       (s\<lparr>foeGrid := set_cell (foeGrid s) index (if h then Hit else Miss),
          shots := shots s + 1,
          hits := hits s + (if h then 1 else 0)\<rparr>)
       [mkLog c 0 (ShotResult h index) (if h then L_hit else L_miss)]"
| "gameReducer c s (ENEMY_STRIKE index h) =
     appendLog
       (s\<lparr>myGrid := set_cell (myGrid s) index (if h then Hit else Miss),
          myTurn := (\<not> h)\<rparr>)
       [mkLog c 0 (EnemyFires index h) (if h then L_hit else L_miss)]"
| "gameReducer c s (GAME_OVER w txId) =
     appendLog
       (s\<lparr>phase := Ended, winner := w, txIds := txIds s @ [txId]\<rparr>)
       [mkLog c 0 (HubEndGame (w = You) (take 12 txId)) L_wallet,
        mkLog c 1 (MissionOutcome (w = You)) L_sys]"
| "gameReducer c s (LOG_APPEND entries) =
     s\<lparr>log := slice_last 100 (log s) @ entries\<rparr>"
| "gameReducer c s (GAME_RESTORE payload) =
     payload\<lparr>log := log payload @ [mkLog c 0 SessionRestored L_sys]\<rparr>"
| "gameReducer c s GAME_RESET = blankGame"

text \<open>The derived selectors.\<close>

definition zkBusy :: "GameState \<Rightarrow> bool" where
  "zkBusy s =
     (state (zkProof s) \<noteq> IDLE \<and>
      state (zkProof s) \<noteq> VERIFICATION_SUCCESS \<and>
      state (zkProof s) \<noteq> VERIFICATION_FAILURE)"

definition canFire :: "GameState \<Rightarrow> bool" where
  "canFire s = (phase s = Battle \<and> myTurn s \<and> \<not> zkBusy s)"

subsection \<open>Accounts and the ledger (section 2 of the source)\<close>

datatype TxType = Deposit | Withdraw | Stake | Win | Loss | Refund

datatype TxStatus = Confirmed | Pending

text \<open>
  The label templates of the ledger records: the welcome deposit of a verified or demo
  account, the stake of session \<open>sid\<close>, a win of session \<open>sid\<close> with its prize, a
  loss, the refund of an aborted session.
\<close>

datatype TxLabel =
    WelcomeLabel bool
  | StakeLabel int
  | WinLabel int int
  | LossLabel int
  | RefundAbortedLabel int

text \<open>The fields \<^verbatim>\<open>id\<close>, \<^verbatim>\<open>type\<close> and \<^verbatim>\<open>ts\<close> carry the prefix \<open>tx_\<close> here.\<close>

record TxRecord =
  tx_id :: string
  tx_type :: TxType
  amount :: int
  tx_ts :: string
  status :: TxStatus
  label :: TxLabel
  sessionId :: "int option"

record UserProfile =
  sub :: string
  username :: string
  email :: string
  emailVerified :: bool
  picture :: string
  walletAddress :: string
  balance :: int
  wins :: int
  losses :: int
  totalStaked :: int
  txHistory :: "TxRecord list"
  createdAt :: string

text \<open>
  \<^verbatim>\<open>withTx(u, r)\<close> appends the record \<open>r\<close>, completed with a fresh \<^verbatim>\<open>txId()\<close>
  and \<^verbatim>\<open>datets()\<close>; the two generated values are the first two arguments.
\<close>

definition withTx ::
  "string \<Rightarrow> string \<Rightarrow> UserProfile \<Rightarrow> TxType \<Rightarrow> int \<Rightarrow> TxStatus \<Rightarrow> TxLabel \<Rightarrow> int option
     \<Rightarrow> UserProfile" where
  "withTx i t u ty amt st lbl sess =
     u\<lparr>txHistory := txHistory u @
        [\<lparr>tx_id = i, tx_type = ty, amount = amt, tx_ts = t, status = st, label = lbl,
          sessionId = sess\<rparr>]\<rparr>"

subsection \<open>The root component's handlers (section 21 of the source)\<close>

text \<open>
  The state the handlers share: the reducer's state (\<^verbatim>\<open>gameRef.current\<close>, which
  mirrors \<^verbatim>\<open>game\<close> after every render), the profile (\<^verbatim>\<open>profileRef.current\<close>) and
  the re-entrancy flag \<^verbatim>\<open>busyRef.current\<close>. The field \<open>dispatched\<close> is
  instrumentation: every action passed to \<^verbatim>\<open>dispatch\<close>, oldest first.
\<close>

record App =
  game :: GameState
  profile :: "UserProfile option"
  busy :: bool
  dispatched :: "GameAction list"

text \<open>
  What a handler draws from outside: the clock at its \<open>k\<close>-th dispatch, the \<open>k\<close>-th
  result of \<^verbatim>\<open>simulateZK\<close>, of \<^verbatim>\<open>txId()\<close>, of \<^verbatim>\<open>datets()\<close>, and the raw
  material of the \<open>k\<close>-th \<^verbatim>\<open>rnd\<close>.
\<close>

record env =
  clockAt :: "nat \<Rightarrow> clock"
  hexAt :: "nat \<Rightarrow> string"
  txIdAt :: "nat \<Rightarrow> string"
  datetsAt :: "nat \<Rightarrow> string"
  rndAt :: "nat \<Rightarrow> nat"

text \<open>\<^verbatim>\<open>rnd(n) = Math.floor(Math.random() * n)\<close> lies in \<open>0..n-1\<close>.\<close>

definition rnd :: "env \<Rightarrow> nat \<Rightarrow> nat \<Rightarrow> nat" where
  "rnd e k n = rndAt e k mod n"

definition dispatch :: "clock \<Rightarrow> GameAction \<Rightarrow> App \<Rightarrow> App" where
  "dispatch c a app =
     app\<lparr>game := gameReducer c (game app) a, dispatched := dispatched app @ [a]\<rparr>"

text \<open>
  \<^verbatim>\<open>handleStartGame()\<close>, in its three segments. \<open>stakeInput\<close> is
  \<^verbatim>\<open>parseInt(stakeInput)\<close>, \<open>None\<close> for \<^verbatim>\<open>NaN\<close>; \<^verbatim>\<open>parseInt(stakeInput) || 10\<close>
  replaces \<^verbatim>\<open>NaN\<close> and 0 by 10. The handler goes on when it is not busy, a profile
  is there and the balance covers the bet.
\<close>

definition start_bet :: "int option \<Rightarrow> int" where
  "start_bet stakeInput =
     min MAX_STAKE (max 1 (case stakeInput of None \<Rightarrow> 10 | Some n \<Rightarrow> if n = 0 then 10 else n))"

definition start_accepted :: "int option \<Rightarrow> App \<Rightarrow> bool" where
  "start_accepted stakeInput app =
     (\<not> busy app \<and>
      (case profile app of None \<Rightarrow> False | Some p \<Rightarrow> \<not> start_bet stakeInput > balance p))"

definition start_begin :: "env \<Rightarrow> int option \<Rightarrow> App \<Rightarrow> App" where
  "start_begin e stakeInput app =
     (let bet = start_bet stakeInput;
          sid' = 1000 + int (rnd e 0 9000);
          foeUnit' = int (rnd e 1 CELLS);
          a1 = dispatch (clockAt e 0) (GAME_INIT sid' bet foeUnit') (app\<lparr>busy := True\<rparr>)
      in case profile app of
           None \<Rightarrow> a1
         | Some p \<Rightarrow>
             a1\<lparr>profile := Some
               (withTx (txIdAt e 0) (datetsAt e 0)
                  (p\<lparr>balance := balance p - bet, totalStaked := totalStaked p + bet\<rparr>)
                  Stake bet Confirmed (StakeLabel sid') (Some sid'))\<rparr>)"

definition start_hub :: "env \<Rightarrow> App \<Rightarrow> App" where
  "start_hub e app =
     dispatch (clockAt e 1) (LOG_APPEND [mkLog (clockAt e 1) 0 HubAddress L_sys]) app"

definition start_ready :: "env \<Rightarrow> App \<Rightarrow> App" where
  "start_ready e app = (dispatch (clockAt e 2) (GAME_READY (txIdAt e 1)) app)\<lparr>busy := False\<rparr>"

definition handleStartGame :: "env \<Rightarrow> int option \<Rightarrow> App \<Rightarrow> App" where
  "handleStartGame e stakeInput app =
     (if \<not> start_accepted stakeInput app then app
      else start_ready e (start_hub e (start_begin e stakeInput app)))"

text \<open>
  \<^verbatim>\<open>handleFire(index)\<close> is asynchronous: it runs in segments separated by
  \<^verbatim>\<open>await\<close>, and other handlers can run between two segments. Each segment is a
  function of its own; \<open>snap\<close> is the snapshot \<^verbatim>\<open>gameRef.current\<close> the handler took
  on entry. The guards of the entry:
\<close>

definition fire_accepted :: "App \<Rightarrow> int \<Rightarrow> bool" where
  "fire_accepted app index =
     (\<not> busy app \<and> canFire (game app) \<and>
      \<not> (cell_at (foeGrid (game app)) index \<noteq> Some Fog \<and>
         cell_at (foeGrid (game app)) index \<noteq> Some Targeted))"

definition fire_start :: "env \<Rightarrow> int \<Rightarrow> App \<Rightarrow> App" where
  "fire_start e index app =
     dispatch (clockAt e 0) (ZK_WITNESS_BEGIN index) (app\<lparr>busy := True\<rparr>)"

definition fire_witness :: "env \<Rightarrow> App \<Rightarrow> App" where
  "fire_witness e app =
     dispatch (clockAt e 2) ZK_CIRCUIT_BEGIN
       (dispatch (clockAt e 1) (ZK_WITNESS_DONE (hexAt e 0)) app)"

definition fire_proof_begin :: "env \<Rightarrow> App \<Rightarrow> App" where
  "fire_proof_begin e app = dispatch (clockAt e 3) ZK_PROOF_BEGIN app"

definition fire_proof_done :: "env \<Rightarrow> App \<Rightarrow> App" where
  "fire_proof_done e app =
     dispatch (clockAt e 5) ZK_VERIFY_BEGIN
       (dispatch (clockAt e 4) (ZK_PROOF_DONE (hexAt e 2)) app)"

definition fire_verified :: "env \<Rightarrow> int \<Rightarrow> GameState \<Rightarrow> App \<Rightarrow> App" where
  "fire_verified e index snap app =
     dispatch (clockAt e 6) (ZK_VERIFY_SUCCESS (index = foeUnit snap) (txIdAt e 0)) app"

definition fire_shot :: "env \<Rightarrow> int \<Rightarrow> GameState \<Rightarrow> App \<Rightarrow> App" where
  "fire_shot e index snap app =
     dispatch (clockAt e 7) (SHOT_APPLY index (index = foeUnit snap)) app"

text \<open>The player wins: \<^verbatim>\<open>GAME_OVER\<close>, then the prize of twice the stake.\<close>

definition fire_win :: "env \<Rightarrow> GameState \<Rightarrow> App \<Rightarrow> App" where
  "fire_win e snap app =
     (let app1 = dispatch (clockAt e 8) (GAME_OVER You (txIdAt e 1)) app;
          prize = stake snap * 2;
          app2 = (case profile app1 of
                    None \<Rightarrow> app1
                  | Some p \<Rightarrow>
                      app1\<lparr>profile := Some
                        (withTx (txIdAt e 2) (datetsAt e 0)
                           (p\<lparr>balance := balance p + prize, wins := wins p + 1\<rparr>)
                           Win prize Confirmed (WinLabel (sid snap) prize) (Some (sid snap)))\<rparr>)
      in app2\<lparr>busy := False\<rparr>)"

definition fire_enemy_log :: "env \<Rightarrow> App \<Rightarrow> App" where
  "fire_enemy_log e app =
     dispatch (clockAt e 8) (LOG_APPEND [mkLog (clockAt e 8) 0 EnemyComputing L_fire]) app"

text \<open>
  The cells the enemy may still target:
  \<^verbatim>\<open>myGrid.map((_, i) => i).filter(i => myGrid[i] !== 'hit' && myGrid[i] !== 'miss')\<close>;
  \<^verbatim>\<open>map\<close> and \<^verbatim>\<open>filter\<close> skip the holes of an array.
\<close>

definition enemy_avail :: "grid \<Rightarrow> nat list" where
  "enemy_avail g =
     filter (\<lambda>i. g ! i \<noteq> Hole \<and> g ! i \<noteq> Cell Hit \<and> g ! i \<noteq> Cell Miss) [0..<length g]"

definition enemy_target :: "env \<Rightarrow> GameState \<Rightarrow> int" where
  "enemy_target e latest =
     int (enemy_avail (myGrid latest) ! rnd e 0 (length (enemy_avail (myGrid latest))))"

text \<open>Whether the enemy's strike, computed on the freshest state, hits the player's unit.\<close>

definition enemy_hits :: "env \<Rightarrow> App \<Rightarrow> bool" where
  "enemy_hits e app =
     (enemy_avail (myGrid (game app)) \<noteq> [] \<and> enemy_target e (game app) = myUnit (game app))"

definition fire_enemy_strike :: "env \<Rightarrow> App \<Rightarrow> App" where
  "fire_enemy_strike e app =
     (let latest = game app in
      if enemy_avail (myGrid latest) = []
      then (dispatch (clockAt e 9) ZK_RESET app)\<lparr>busy := False\<rparr>
      else
        let aiIdx = enemy_target e latest;
            aiIsHit = (aiIdx = myUnit latest);
            app1 = dispatch (clockAt e 9) (ENEMY_STRIKE aiIdx aiIsHit) app
        in if aiIsHit then app1
           else (dispatch (clockAt e 11) ZK_RESET app1)\<lparr>busy := False\<rparr>)"

text \<open>The enemy has hit: \<^verbatim>\<open>GAME_OVER\<close>, the loss record (no credit), then the reset.\<close>

definition fire_loss :: "env \<Rightarrow> GameState \<Rightarrow> App \<Rightarrow> App" where
  "fire_loss e snap app =
     (let app1 = dispatch (clockAt e 10) (GAME_OVER Foe (txIdAt e 1)) app;
          app2 = (case profile app1 of
                    None \<Rightarrow> app1
                  | Some p \<Rightarrow>
                      app1\<lparr>profile := Some
                        (withTx (txIdAt e 2) (datetsAt e 0)
                           (p\<lparr>losses := losses p + 1\<rparr>)
                           Loss (stake snap) Confirmed (LossLabel (sid snap)) (Some (sid snap)))\<rparr>)
      in (dispatch (clockAt e 11) ZK_RESET app2)\<lparr>busy := False\<rparr>)"

text \<open>
  Everything \<^verbatim>\<open>handleFire\<close> does after its first \<^verbatim>\<open>await\<close>, when no other
  handler runs in between.
\<close>

definition fire_rest :: "env \<Rightarrow> int \<Rightarrow> GameState \<Rightarrow> App \<Rightarrow> App" where
  "fire_rest e index snap app =
     (let shot = fire_shot e index snap
                   (fire_verified e index snap
                     (fire_proof_done e (fire_proof_begin e (fire_witness e app))))
      in if index = foeUnit snap then fire_win e snap shot
         else
           let waiting = fire_enemy_log e shot;
               struck = fire_enemy_strike e waiting
           in if enemy_hits e waiting then fire_loss e snap struck else struck)"

text \<open>\<^verbatim>\<open>handleFire(index)\<close> run to its end with no other handler in between.\<close>

definition handleFire :: "env \<Rightarrow> int \<Rightarrow> App \<Rightarrow> App" where
  "handleFire e index app =
     (if \<not> fire_accepted app index then app
      else fire_rest e index (game app) (fire_start e index app))"

text \<open>
  Two moments of that run: just before \<^verbatim>\<open>SHOT_APPLY\<close> is dispatched, and just
  after.
\<close>

definition fire_until_verified :: "env \<Rightarrow> int \<Rightarrow> App \<Rightarrow> App" where
  "fire_until_verified e index app =
     fire_verified e index (game app)
       (fire_proof_done e (fire_proof_begin e (fire_witness e (fire_start e index app))))"

definition fire_through_shot :: "env \<Rightarrow> int \<Rightarrow> App \<Rightarrow> App" where
  "fire_through_shot e index app =
     fire_shot e index (game app) (fire_until_verified e index app)"

text \<open>
  \<^verbatim>\<open>handlePlace(index)\<close>: the guards and the synchronous first segment, then the
  segments that log the commitment and begin the battle.
\<close>

definition place_accepted :: "App \<Rightarrow> bool" where
  "place_accepted app =
     (\<not> busy app \<and> \<not> (myUnit (game app) \<noteq> -1 \<or> phase (game app) \<noteq> Placement))"

definition place_start :: "env \<Rightarrow> int \<Rightarrow> App \<Rightarrow> App" where
  "place_start e index app = dispatch (clockAt e 0) (UNIT_PLACE index) (app\<lparr>busy := True\<rparr>)"

definition place_commit :: "env \<Rightarrow> int \<Rightarrow> App \<Rightarrow> App" where
  "place_commit e index app =
     (let a1 = dispatch (clockAt e 1)
                 (LOG_APPEND [mkLog (clockAt e 1) 0 (PoseidonInput index (hexAt e 0)) L_zk]) app;
          a2 = dispatch (clockAt e 2)
                 (LOG_APPEND [mkLog (clockAt e 2) 0 (CommitHash (hexAt e 1)) L_zk]) a1;
          a3 = dispatch (clockAt e 3)
                 (LOG_APPEND [mkLog (clockAt e 3) 0 CommitmentOnChain L_zk]) a2;
          a4 = dispatch (clockAt e 4) (BATTLE_BEGIN (rnd e 0 2 = 0)) a3
      in a4\<lparr>busy := False\<rparr>)"

definition handlePlace :: "env \<Rightarrow> int \<Rightarrow> App \<Rightarrow> App" where
  "handlePlace e index app =
     (if \<not> place_accepted app then app
      else place_commit e index (place_start e index app))"

text \<open>\<^verbatim>\<open>handleAbort()\<close>: the refund when a stake is held, then the reset.\<close>

definition handleAbort :: "env \<Rightarrow> App \<Rightarrow> App" where
  "handleAbort e app =
     (let g = game app;
          app1 = (case profile app of
                    None \<Rightarrow> app
                  | Some p \<Rightarrow>
                      if stakeDeducted g \<and> phase g \<noteq> Ended
                      then app\<lparr>profile := Some
                             (withTx (txIdAt e 0) (datetsAt e 0)
                                (p\<lparr>balance := balance p + stake g\<rparr>)
                                Refund (stake g) Confirmed (RefundAbortedLabel (sid g))
                                (Some (sid g)))\<rparr>
                      else app)
      in dispatch (clockAt e 0) GAME_RESET (app1\<lparr>busy := False\<rparr>))"

subsection \<open>Voice command parsing (section 8 of the source)\<close>

text \<open>
  A transcript is a list of 8-bit characters, read as the code points U+0000 to U+00FF.
  The classes of the regular expressions on that range: \<^verbatim>\<open>\s\<close> (which is also what
  \<^verbatim>\<open>trim\<close> removes) is tab, line feed, vertical tab, form feed, carriage return,
  space and the no-break space; \<^verbatim>\<open>\w\<close> is \<^verbatim>\<open>[A-Za-z0-9_]\<close>; \<^verbatim>\<open>\d\<close> is
  \<^verbatim>\<open>[0-9]\<close>.
\<close>

definition code :: "char \<Rightarrow> nat" where
  "code ch = of_char ch"

definition is_space :: "char \<Rightarrow> bool" where
  "is_space ch = (code ch \<in> {9, 10, 11, 12, 13, 32, 160})"

definition is_digit :: "char \<Rightarrow> bool" where
  "is_digit ch = (48 \<le> code ch \<and> code ch \<le> 57)"

definition is_az :: "char \<Rightarrow> bool" where
  "is_az ch = (97 \<le> code ch \<and> code ch \<le> 122)"

definition is_word :: "char \<Rightarrow> bool" where
  "is_word ch = (is_az ch \<or> (65 \<le> code ch \<and> code ch \<le> 90) \<or> is_digit ch \<or> code ch = 95)"

text \<open>
  \<^verbatim>\<open>toLowerCase\<close> on the range: the ASCII capitals, and the Latin-1 capitals
  U+00C0 to U+00DE without the multiplication sign U+00D7.
\<close>

definition lower_char :: "char \<Rightarrow> char" where
  "lower_char ch =
     (if (65 \<le> code ch \<and> code ch \<le> 90) \<or> (192 \<le> code ch \<and> code ch \<le> 222 \<and> code ch \<noteq> 215)
      then char_of (code ch + 32) else ch)"

definition toLowerCase :: "string \<Rightarrow> string" where
  "toLowerCase s = map lower_char s"

definition toUpperCase_az :: "char \<Rightarrow> char" where
  "toUpperCase_az ch = (if is_az ch then char_of (code ch - 32) else ch)"

definition starts_with :: "string \<Rightarrow> string \<Rightarrow> bool" where
  "starts_with p s = (take (length p) s = p)"

text \<open>
  \<^verbatim>\<open>s.replace(/\bW\b/g, r)\<close> for a word \<open>W = w # ws\<close> of \<^verbatim>\<open>\w\<close> characters: scanning
  from the left, \<open>W\<close> is replaced where the character before it and the character after
  it are not \<^verbatim>\<open>\w\<close> characters (or are missing), and the scan goes on behind the
  match. The flag says whether the character before the position is a \<^verbatim>\<open>\w\<close>
  character.
\<close>

function replace_word :: "char \<Rightarrow> string \<Rightarrow> string \<Rightarrow> bool \<Rightarrow> string \<Rightarrow> string" where
  "replace_word w ws r prev [] = []"
| "replace_word w ws r prev (ch # cs) =
     (if \<not> prev \<and> ch = w \<and> starts_with ws cs \<and>
         (case drop (length ws) cs of [] \<Rightarrow> True | nxt # _ \<Rightarrow> \<not> is_word nxt)
      then r @ replace_word w ws r True (drop (length ws) cs)
      else ch # replace_word w ws r (is_word ch) cs)"
  by pat_completeness auto
termination
  by (relation "measure (\<lambda>(w, ws, r, prev, s). length s)") auto

text \<open>\<^verbatim>\<open>s.replace(/\s+/g, ' ')\<close>: every maximal run of white space becomes one space.\<close>

function collapse_spaces :: "string \<Rightarrow> string" where
  "collapse_spaces [] = []"
| "collapse_spaces (ch # cs) =
     (if is_space ch then CHR '' '' # collapse_spaces (dropWhile is_space cs)
      else ch # collapse_spaces cs)"
  by pat_completeness auto
termination
  by (relation "measure length") (auto simp: length_dropWhile_le less_Suc_eq_le)

definition trim :: "string \<Rightarrow> string" where
  "trim s = rev (dropWhile is_space (rev (dropWhile is_space s)))"

text \<open>The normalisation chain at the head of \<^verbatim>\<open>parseVoice\<close>.\<close>

definition normalise :: "string \<Rightarrow> string" where
  "normalise raw =
     trim (collapse_spaces
       (replace_word CHR ''s'' ''ix'' ''6'' False
       (replace_word CHR ''f'' ''ive'' ''5'' False
       (replace_word CHR ''f'' ''our'' ''4'' False
       (replace_word CHR ''t'' ''hree'' ''3'' False
       (replace_word CHR ''t'' ''wo'' ''2'' False
       (replace_word CHR ''o'' ''ne'' ''1'' False
       (toLowerCase raw))))))))"

definition verbs :: "string list" where
  "verbs = [''fire'', ''shoot'', ''attack'', ''place'', ''put'', ''deploy'']"

text \<open>
  \<^verbatim>\<open>t.match(/^(fire|shoot|attack|place|put|deploy)\s+([a-z]+)\s*(\d)$/)\<close>, giving the
  three groups. No verb is a prefix of another, and the classes \<^verbatim>\<open>\s\<close>,
  \<^verbatim>\<open>[a-z]\<close> and \<^verbatim>\<open>\d\<close> are disjoint, so the greedy reading of each repetition is
  the only one that can match.
\<close>

definition match_command :: "string \<Rightarrow> (string \<times> string \<times> char) option" where
  "match_command t =
     (case find (\<lambda>v. starts_with v t) verbs of
        None \<Rightarrow> None
      | Some v \<Rightarrow>
          let r1 = drop (length v) t;
              r2 = dropWhile is_space r1;
              word = takeWhile is_az r2;
              r3 = dropWhile is_space (dropWhile is_az r2)
          in if takeWhile is_space r1 = [] \<or> word = [] then None
             else (case r3 of
                     [d] \<Rightarrow> if is_digit d then Some (v, word, d) else None
                   | _ \<Rightarrow> None))"

text \<open>
  \<^verbatim>\<open>NATO[key]\<close> on the object literal \<^verbatim>\<open>NATO\<close>. The twelve own keys give a column
  letter. A property lookup also reaches the prototype of an object literal: of the
  properties of \<^verbatim>\<open>Object.prototype\<close> only \<^verbatim>\<open>constructor\<close> is spelt with the letters
  a to z, and its value is a function. Every other key gives \<^verbatim>\<open>undefined\<close>.
\<close>

datatype nato_value = Letter char | InheritedFunction | Undefined

definition NATO :: "string \<Rightarrow> nato_value" where
  "NATO key =
     (if key = ''alpha'' \<or> key = ''a'' then Letter CHR ''a''
      else if key = ''bravo'' \<or> key = ''b'' then Letter CHR ''b''
      else if key = ''charlie'' \<or> key = ''c'' then Letter CHR ''c''
      else if key = ''delta'' \<or> key = ''d'' then Letter CHR ''d''
      else if key = ''echo'' \<or> key = ''e'' then Letter CHR ''e''
      else if key = ''foxtrot'' \<or> key = ''f'' then Letter CHR ''f''
      else if key = ''constructor'' then InheritedFunction
      else Undefined)"

datatype VoiceAction = V_fire | V_place | V_abort | V_unknown

text \<open>The confidence is passed through untouched; its type is left open.\<close>

record 'c VoiceCommand =
  transcript :: string
  action :: VoiceAction
  cellIndex :: int
  coord :: string
  confidence :: 'c

text \<open>
  The one exception the function can raise: \<^verbatim>\<open>colLetter.charCodeAt(0)\<close> where
  \<^verbatim>\<open>colLetter\<close> is not a string.
\<close>

datatype voice_error = TypeError

definition parseVoice :: "string \<Rightarrow> 'c \<Rightarrow> voice_error + 'c VoiceCommand" where
  "parseVoice raw conf =
     (let base = \<lparr>transcript = raw, action = V_unknown, cellIndex = -1, coord = [],
                  confidence = conf\<rparr>;
          t = normalise raw
      in if starts_with ''abort'' t \<or> starts_with ''cancel'' t \<or> starts_with ''stop'' t
         then Inr (base\<lparr>action := V_abort\<rparr>)
         else case match_command t of
             None \<Rightarrow> Inr base
           | Some (verb, word, d) \<Rightarrow>
               (case NATO word of
                  Undefined \<Rightarrow> Inr base
                | InheritedFunction \<Rightarrow> Inl TypeError
                | Letter colLetter \<Rightarrow>
                    let col = int (code colLetter) - 97;
                        row = int (code d) - 48 - 1
                    in if col < 0 \<or> col \<ge> GRID \<or> row < 0 \<or> row \<ge> GRID then Inr base
                       else Inr \<lparr>transcript = raw,
                                 action = (if verb \<in> {''fire'', ''shoot'', ''attack''}
                                           then V_fire else V_place),
                                 cellIndex = row * GRID + col,
                                 coord = [toUpperCase_az colLetter, d],
                                 confidence = conf\<rparr>))"

subsection \<open>Runs of the reducer, and the notions the properties are stated with\<close>

text \<open>A sequence of actions, each evaluated under its own clock, oldest first.\<close>

fun steps :: "(clock \<times> GameAction) list \<Rightarrow> GameState \<Rightarrow> GameState" where
  "steps [] s = s"
| "steps ((c, a) # rest) s = steps rest (gameReducer c s a)"

text \<open>The order of the phases: setup, placement, battle, ended.\<close>

fun phase_rank :: "GamePhase \<Rightarrow> nat" where
  "phase_rank Setup = 0"
| "phase_rank Placement = 1"
| "phase_rank Battle = 2"
| "phase_rank Ended = 3"

text \<open>
  An action stays within the running session when it is none of \<^verbatim>\<open>GAME_INIT\<close>,
  \<^verbatim>\<open>GAME_RESET\<close> and \<^verbatim>\<open>GAME_RESTORE\<close> (which begin, clear or load a session), and
  arrives where the handlers send it: \<^verbatim>\<open>GAME_READY\<close> before the battle,
  \<^verbatim>\<open>BATTLE_BEGIN\<close> before the end.
\<close>

fun within_session :: "GameState \<Rightarrow> GameAction \<Rightarrow> bool" where
  "within_session s (GAME_INIT sid' stake' foeUnit') = False"
| "within_session s GAME_RESET = False"
| "within_session s (GAME_RESTORE payload) = False"
| "within_session s (GAME_READY txId) = (phase_rank (phase s) \<le> 1)"
| "within_session s (BATTLE_BEGIN turn) = (phase_rank (phase s) \<le> 2)"
| "within_session s a = True"

fun session_run :: "GameState \<Rightarrow> (clock \<times> GameAction) list \<Rightarrow> bool" where
  "session_run s [] = True"
| "session_run s ((c, a) # rest) = (within_session s a \<and> session_run (gameReducer c s a) rest)"

text \<open>
  The actions after which a failed ProofContext is still the failed one: all but the
  explicit reset, the start of a new fire, the three actions that replace the whole
  session, and \<^verbatim>\<open>ZK_PROOF_BEGIN\<close>.
\<close>

fun keeps_failure :: "GameAction \<Rightarrow> bool" where
  "keeps_failure ZK_RESET = False"
| "keeps_failure (ZK_WITNESS_BEGIN index) = False"
| "keeps_failure (GAME_INIT sid' stake' foeUnit') = False"
| "keeps_failure GAME_RESET = False"
| "keeps_failure (GAME_RESTORE payload) = False"
| "keeps_failure ZK_PROOF_BEGIN = False"
| "keeps_failure a = True"

text \<open>The ledger records of one type that a profile holds for a session.\<close>

definition ledger_events :: "TxType \<Rightarrow> int \<Rightarrow> UserProfile \<Rightarrow> TxRecord list" where
  "ledger_events ty sess p =
     filter (\<lambda>r. tx_type r = ty \<and> sessionId r = Some sess) (txHistory p)"

subsection \<open>A concrete session\<close>

definition clock0 :: clock where
  "clock0 = \<lparr>dateNow = (\<lambda>k. 0), nowts = (\<lambda>k. ''12:00:00'')\<rparr>"

definition clock1 :: clock where
  "clock1 = \<lparr>dateNow = (\<lambda>k. 1000), nowts = (\<lambda>k. ''12:00:01'')\<rparr>"

text \<open>
  The generated values of the handlers of the example: \<^verbatim>\<open>rnd\<close> is built from 234
  on its first call and from 5 on its second, so that \<^verbatim>\<open>handleStartGame\<close> draws the
  session id 1234 and puts the opponent's unit on cell 5, and \<^verbatim>\<open>handlePlace\<close> gives
  the first turn to the player.
\<close>

definition env0 :: env where
  "env0 = \<lparr>clockAt = (\<lambda>k. clock0), hexAt = (\<lambda>k. ''ab''), txIdAt = (\<lambda>k. ''TX00''),
            datetsAt = (\<lambda>k. ''Nov 3''), rndAt = (\<lambda>k. if k = 1 then 5 else 234)\<rparr>"

text \<open>The environment of another handler, whose generated values differ.\<close>

definition env1 :: env where
  "env1 = \<lparr>clockAt = (\<lambda>k. clock0), hexAt = (\<lambda>k. ''cd''), txIdAt = (\<lambda>k. ''TX77''),
            datetsAt = (\<lambda>k. ''Nov 3''), rndAt = (\<lambda>k. if k = 1 then 9 else 3321)\<rparr>"

text \<open>A demo account with its welcome deposit of 200, in the lobby.\<close>

definition player :: UserProfile where
  "player = \<lparr>sub = ''auth0|1'', username = ''operative'', email = [], emailVerified = False,
     picture = [], walletAddress = ''G'', balance = 200, wins = 0, losses = 0,
     totalStaked = 0,
     txHistory = [\<lparr>tx_id = ''TX01'', tx_type = Deposit, amount = 200, tx_ts = ''Nov 3'',
                   status = Confirmed, label = WelcomeLabel False, sessionId = None\<rparr>],
     createdAt = ''Nov 3''\<rparr>"

definition lobby_app :: App where
  "lobby_app = \<lparr>game = blankGame, profile = Some player, busy = False, dispatched = []\<rparr>"

text \<open>
  The player stakes 10: session 1234, the opponent's unit on cell 5, the balance at 190.
  The player then places the unit on cell 7 and the battle begins with the player's
  turn.
\<close>

definition placement_app :: App where
  "placement_app = handleStartGame env0 (Some 10) lobby_app"

definition battle_app :: App where
  "battle_app = handlePlace env0 7 placement_app"

definition battle_game :: GameState where
  "battle_game = game battle_app"

text \<open>The account during that battle.\<close>

definition staked_player :: UserProfile where
  "staked_player = player\<lparr>balance := 190, totalStaked := 10,
     txHistory := txHistory player @
       [\<lparr>tx_id = ''TX00'', tx_type = Stake, amount = 10, tx_ts = ''Nov 3'',
         status = Confirmed, label = StakeLabel 1234, sessionId = Some 1234\<rparr>]\<rparr>"

text \<open>
  The player fires at cell 5, where the opponent's unit is, and aborts while the witness
  is being built; the fire handler then runs on to its end.
\<close>

definition fire_aborted :: App where
  "fire_aborted = handleAbort env1 (fire_start env0 5 battle_app)"

text \<open>The account after that abort.\<close>

definition refunded_player :: UserProfile where
  "refunded_player = staked_player\<lparr>balance := 200,
     txHistory := txHistory staked_player @
       [\<lparr>tx_id = ''TX77'', tx_type = Refund, amount = 10, tx_ts = ''Nov 3'',
         status = Confirmed, label = RefundAbortedLabel 1234, sessionId = Some 1234\<rparr>]\<rparr>"

definition fire_after_abort :: App where
  "fire_after_abort = fire_rest env0 5 battle_game fire_aborted"

text \<open>
  After the same abort the player starts a new game at once. The fire handler that
  outlived the abort dispatches its witness events while the new stake is being locked,
  and its \<^verbatim>\<open>ZK_PROOF_BEGIN\<close> once the new session is in placement.
\<close>

definition stale_placement_app :: App where
  "stale_placement_app =
     fire_proof_begin env0
       (start_ready env1 (start_hub env1
         (fire_witness env0 (start_begin env1 (Some 10) fire_aborted))))"

text \<open>The session just initialised, and the actions that carry it to its end.\<close>

definition init_game :: GameState where
  "init_game = gameReducer clock0 blankGame (GAME_INIT 1234 10 5)"

definition session_actions :: "(clock \<times> GameAction) list" where
  "session_actions =
     [(clock0, GAME_READY ''TX00''), (clock0, UNIT_PLACE 7), (clock0, BATTLE_BEGIN True),
      (clock1, SHOT_APPLY 5 True), (clock1, GAME_OVER You ''TX02'')]"

text \<open>Actions that arrive after a failed verification without resetting it.\<close>

definition late_actions :: "(clock \<times> GameAction) list" where
  "late_actions =
     [(clock0, ZK_WITNESS_DONE ''ab''), (clock0, ZK_VERIFY_SUCCESS True ''TX03''),
      (clock1, SHOT_APPLY 0 False), (clock1, ENEMY_STRIKE 3 False)]"


section \<open>Properties\<close>

subsection \<open>Auxiliary facts\<close>

lemmas reducer_defs = appendLog_def mkLog_def

lemmas fire_defs = fire_until_verified_def fire_through_shot_def fire_verified_def fire_shot_def
  fire_proof_done_def fire_proof_begin_def fire_witness_def fire_start_def dispatch_def

text \<open>
  The battle of the example, evaluated once; the evaluations below start from this form.
\<close>

lemma battle_app_eval [code]:
  "battle_app =
     \<lparr>game =
        \<lparr>phase = Battle, sid = 1234, stake = 10,
         myGrid = (replicate 36 (Cell Empty))[7 := Cell Unit],
         foeGrid = replicate 36 (Cell Fog),
         foeUnit = 5, myUnit = 7, myTurn = True, shots = 0, hits = 0,
         winner = NoWinner, txIds = [''TX00''],
         log =
           [\<lparr>ts = ''12:00:00'', msg = SessionInitialised 1234 10, tag = L_sys\<rparr>,
            \<lparr>ts = ''12:00:00'', msg = ConnectingToHub, tag = L_sys\<rparr>,
            \<lparr>ts = ''12:00:00'', msg = HubAddress, tag = L_sys\<rparr>,
            \<lparr>ts = ''12:00:00'', msg = StakeTxConfirmed ''TX00'', tag = L_wallet\<rparr>,
            \<lparr>ts = ''12:00:00'', msg = ProvingKeyLoaded, tag = L_zk\<rparr>,
            \<lparr>ts = ''12:00:00'', msg = PlaceYourUnit, tag = L_sys\<rparr>,
            \<lparr>ts = ''12:00:00'', msg = UnitPlacedAt 7, tag = L_zk\<rparr>,
            \<lparr>ts = ''12:00:00'', msg = PoseidonInput 7 ''ab'', tag = L_zk\<rparr>,
            \<lparr>ts = ''12:00:00'', msg = CommitHash ''ab'', tag = L_zk\<rparr>,
            \<lparr>ts = ''12:00:00'', msg = CommitmentOnChain, tag = L_zk\<rparr>,
            \<lparr>ts = ''12:00:00'', msg = CommitmentConfirmed, tag = L_zk\<rparr>,
            \<lparr>ts = ''12:00:00'', msg = OpponentCommitted, tag = L_sys\<rparr>,
            \<lparr>ts = ''12:00:00'', msg = BattleStart, tag = L_sys\<rparr>,
            \<lparr>ts = ''12:00:00'', msg = TurnPrompt True, tag = L_sys\<rparr>],
         stakeDeducted = True, zkProof = blankZK\<rparr>,
      profile = Some staked_player, busy = False,
      dispatched =
        [GAME_INIT 1234 10 5,
         LOG_APPEND [\<lparr>ts = ''12:00:00'', msg = HubAddress, tag = L_sys\<rparr>],
         GAME_READY ''TX00'', UNIT_PLACE 7,
         LOG_APPEND [\<lparr>ts = ''12:00:00'', msg = PoseidonInput 7 ''ab'', tag = L_zk\<rparr>],
         LOG_APPEND [\<lparr>ts = ''12:00:00'', msg = CommitHash ''ab'', tag = L_zk\<rparr>],
         LOG_APPEND [\<lparr>ts = ''12:00:00'', msg = CommitmentOnChain, tag = L_zk\<rparr>],
         BATTLE_BEGIN True]\<rparr>"
  by code_simp

text \<open>The same for the states after the abort.\<close>

lemma fire_aborted_eval [code]:
  "fire_aborted =
     \<lparr>game = blankGame, profile = Some refunded_player, busy = False,
      dispatched = dispatched battle_app @ [ZK_WITNESS_BEGIN 5, GAME_RESET]\<rparr>"
  by code_simp

lemma stale_placement_app_eval [code]:
  "stale_placement_app =
     \<lparr>game = blankGame
        \<lparr>phase := Placement, sid := 4321, stake := 10, foeUnit := 9, txIds := [''TX77''],
         log :=
           [\<lparr>ts = ''12:00:00'', msg = SessionInitialised 4321 10, tag = L_sys\<rparr>,
            \<lparr>ts = ''12:00:00'', msg = ConnectingToHub, tag = L_sys\<rparr>,
            \<lparr>ts = ''12:00:00'', msg = HubAddress, tag = L_sys\<rparr>,
            \<lparr>ts = ''12:00:00'', msg = StakeTxConfirmed ''TX77'', tag = L_wallet\<rparr>,
            \<lparr>ts = ''12:00:00'', msg = ProvingKeyLoaded, tag = L_zk\<rparr>,
            \<lparr>ts = ''12:00:00'', msg = PlaceYourUnit, tag = L_sys\<rparr>,
            \<lparr>ts = ''12:00:00'', msg = GeneratingProof, tag = L_zk\<rparr>],
         stakeDeducted := True, zkProof := blankZK\<lparr>state := PROOF_GENERATION\<rparr>\<rparr>,
      profile = Some (refunded_player\<lparr>balance := 190, totalStaked := 20,
        txHistory := txHistory refunded_player @
          [\<lparr>tx_id = ''TX77'', tx_type = Stake, amount = 10, tx_ts = ''Nov 3'',
            status = Confirmed, label = StakeLabel 4321, sessionId = Some 4321\<rparr>]\<rparr>),
      busy = False,
      dispatched = dispatched fire_aborted @
        [GAME_INIT 4321 10 9, ZK_WITNESS_DONE ''ab'', ZK_CIRCUIT_BEGIN,
         LOG_APPEND [\<lparr>ts = ''12:00:00'', msg = HubAddress, tag = L_sys\<rparr>],
         GAME_READY ''TX77'', ZK_PROOF_BEGIN]\<rparr>"
  by code_simp

lemma cell_at_set_cell: "0 \<le> i \<Longrightarrow> cell_at (set_cell g i v) i = Some v"
  by (auto simp: cell_at_def set_cell_def spread_def nth_append)

lemma cell_at_Some_range: "cell_at g i = Some v \<Longrightarrow> 0 \<le> i"
  by (auto simp: cell_at_def split: if_splits)

text \<open>The four stage events the reducer does guard are no-ops out of order.\<close>

lemma guarded_stage_events_noop:
  "state (zkProof s) \<noteq> WITNESS_GENERATION \<Longrightarrow> gameReducer c s (ZK_WITNESS_DONE w) = s"
  "state (zkProof s) \<noteq> CIRCUIT_COMPILATION \<Longrightarrow> gameReducer c s ZK_CIRCUIT_BEGIN = s"
  "state (zkProof s) \<noteq> PROOF_GENERATION \<Longrightarrow> gameReducer c s (ZK_PROOF_DONE p) = s"
  "state (zkProof s) \<noteq> ON_CHAIN_VERIFICATION \<Longrightarrow> gameReducer c s (ZK_VERIFY_SUCCESS h tx) = s"
  by simp_all

lemma phase_step:
  "within_session s a \<Longrightarrow> phase_rank (phase s) \<le> phase_rank (phase (gameReducer c s a))"
  by (cases a; cases "phase s") (auto simp: reducer_defs)

lemma phase_run:
  "session_run s as \<Longrightarrow> phase_rank (phase s) \<le> phase_rank (phase (steps as s))"
proof (induction as arbitrary: s)
  case Nil
  then show ?case by simp
next
  case (Cons x as)
  obtain c a where x: "x = (c, a)" by (cases x)
  from Cons.prems x have w: "within_session s a" and r: "session_run (gameReducer c s a) as"
    by simp_all
  have "phase_rank (phase s) \<le> phase_rank (phase (gameReducer c s a))"
    using w by (rule phase_step)
  also have "\<dots> \<le> phase_rank (phase (steps as (gameReducer c s a)))"
    using r by (rule Cons.IH)
  finally show ?case by (simp add: x)
qed

lemma failure_step:
  "keeps_failure a \<Longrightarrow> state (zkProof s) = VERIFICATION_FAILURE \<Longrightarrow>
   state (zkProof (gameReducer c s a)) = VERIFICATION_FAILURE"
  by (cases a) (auto simp: reducer_defs)

lemma failure_run:
  "\<forall>x \<in> set as. keeps_failure (snd x) \<Longrightarrow> state (zkProof s) = VERIFICATION_FAILURE \<Longrightarrow>
   state (zkProof (steps as s)) = VERIFICATION_FAILURE"
proof (induction as arbitrary: s)
  case Nil
  then show ?case by simp
next
  case (Cons x as)
  obtain c a where x: "x = (c, a)" by (cases x)
  with Cons.prems have "state (zkProof (gameReducer c s a)) = VERIFICATION_FAILURE"
    by (simp add: failure_step)
  with Cons show ?case by (simp add: x)
qed

lemma failure_first:
  "errorMsg (zkProof (gameReducer c s (ZK_VERIFY_FAILURE e))) = e"
  "myTurn (gameReducer c s (ZK_VERIFY_FAILURE e))"
  "state (zkProof (gameReducer c s (ZK_VERIFY_FAILURE e))) = VERIFICATION_FAILURE"
  by (simp_all add: reducer_defs)

lemma verified_zk:
  "zkProof (game (fire_until_verified e index app)) =
     blankZK\<lparr>state := VERIFICATION_SUCCESS, targetIndex := index,
             startedAt := dateNow (clockAt e 0) 0, witnessHex := hexAt e 0,
             proofHex := hexAt e 2, isHit := (index = foeUnit (game app)),
             verifyTxHash := txIdAt e 0, resolvedAt := dateNow (clockAt e 6) 1\<rparr>"
  by (simp add: fire_defs reducer_defs blankZK_def)


lemma shot_game:
  "game (fire_through_shot e index app) =
     gameReducer (clockAt e 7) (game (fire_until_verified e index app))
       (SHOT_APPLY index (index = foeUnit (game app)))"
  by (simp add: fire_through_shot_def fire_shot_def dispatch_def)

lemma verified_frame:
  "foeGrid (game (fire_until_verified e index app)) = foeGrid (game app)"
  "myGrid (game (fire_until_verified e index app)) = myGrid (game app)"
  "myUnit (game (fire_until_verified e index app)) = myUnit (game app)"
  "phase (game (fire_until_verified e index app)) = phase (game app)"
  "winner (game (fire_until_verified e index app)) = winner (game app)"
  "myTurn (game (fire_until_verified e index app)) = False"
  "profile (fire_until_verified e index app) = profile app"
  "busy (fire_until_verified e index app) = True"
  by (simp_all add: fire_defs reducer_defs blankZK_def)


lemma shot_frame:
  "myGrid (game (fire_through_shot e index app)) = myGrid (game app)"
  "myUnit (game (fire_through_shot e index app)) = myUnit (game app)"
  "phase (game (fire_through_shot e index app)) = phase (game app)"
  "winner (game (fire_through_shot e index app)) = winner (game app)"
  "myTurn (game (fire_through_shot e index app)) = False"
  "profile (fire_through_shot e index app) = profile app"
  "foeGrid (game (fire_through_shot e index app)) =
     set_cell (foeGrid (game app)) index (if index = foeUnit (game app) then Hit else Miss)"
  by (simp_all add: shot_game verified_frame reducer_defs)
     (simp_all add: fire_through_shot_def fire_shot_def dispatch_def verified_frame)

lemma handleFire_unfold:
  "fire_accepted app index \<Longrightarrow>
   handleFire e index app =
     (if index = foeUnit (game app) then fire_win e (game app) (fire_through_shot e index app)
      else if enemy_hits e (fire_enemy_log e (fire_through_shot e index app))
           then fire_loss e (game app)
                  (fire_enemy_strike e (fire_enemy_log e (fire_through_shot e index app)))
           else fire_enemy_strike e (fire_enemy_log e (fire_through_shot e index app)))"
  by (simp add: handleFire_def fire_rest_def fire_through_shot_def fire_until_verified_def Let_def)

lemma win_fields:
  "phase (game (fire_win e snap a)) = Ended"
  "winner (game (fire_win e snap a)) = You"
  "foeGrid (game (fire_win e snap a)) = foeGrid (game a)"
  "profile a = Some p \<Longrightarrow>
     profile (fire_win e snap a) =
       Some (withTx (txIdAt e 2) (datetsAt e 0)
               (p\<lparr>balance := balance p + stake snap * 2, wins := wins p + 1\<rparr>)
               Win (stake snap * 2) Confirmed (WinLabel (sid snap) (stake snap * 2))
               (Some (sid snap)))"
  by (simp_all add: fire_win_def dispatch_def reducer_defs Let_def split: option.splits)

lemma enemy_log_frame:
  "myGrid (game (fire_enemy_log e a)) = myGrid (game a)"
  "myUnit (game (fire_enemy_log e a)) = myUnit (game a)"
  "foeGrid (game (fire_enemy_log e a)) = foeGrid (game a)"
  "profile (fire_enemy_log e a) = profile a"
  "dispatched (fire_enemy_log e a) =
     dispatched a @ [LOG_APPEND [mkLog (clockAt e 8) 0 EnemyComputing L_fire]]"
  by (simp_all add: fire_enemy_log_def dispatch_def)

lemma enemy_strike_frame:
  "foeGrid (game (fire_enemy_strike e a)) = foeGrid (game a)"
  "profile (fire_enemy_strike e a) = profile a"
  by (simp_all add: fire_enemy_strike_def dispatch_def reducer_defs Let_def)

lemma enemy_strike_dispatched:
  "enemy_avail (myGrid (game a)) \<noteq> [] \<Longrightarrow>
   ENEMY_STRIKE (enemy_target e (game a)) (enemy_target e (game a) = myUnit (game a))
     \<in> set (dispatched (fire_enemy_strike e a))"
  by (simp add: fire_enemy_strike_def dispatch_def Let_def)

lemma loss_frame:
  "foeGrid (game (fire_loss e snap a)) = foeGrid (game a)"
  "map_option balance (profile (fire_loss e snap a)) = map_option balance (profile a)"
  "set (dispatched a) \<subseteq> set (dispatched (fire_loss e snap a))"
  by (auto simp: fire_loss_def dispatch_def reducer_defs Let_def withTx_def split: option.splits)

lemma enemy_target_cong:
  "myGrid g = myGrid g' \<Longrightarrow> enemy_target e g = enemy_target e g'"
  by (simp add: enemy_target_def)






lemma busy_fire_noop: "busy app \<Longrightarrow> handleFire e i app = app"
  by (simp add: handleFire_def fire_accepted_def)

lemma cell_range:
  "0 \<le> col \<Longrightarrow> col < 6 \<Longrightarrow> 0 \<le> row \<Longrightarrow> row < 6 \<Longrightarrow>
   0 \<le> row * 6 + col \<and> row * 6 + col \<le> (35::int)"
  by arith

lemma fire_accepted_in_battle: "fire_accepted battle_app 5 \<and> fire_accepted battle_app 4"
  by code_simp

text \<open>
  Whenever \<^verbatim>\<open>parseVoice\<close> returns, the cell index it returns is \<open>-1\<close> or a cell of the
  6x6 grid, a fire or place command carries a cell of the grid, and an abort or unknown
  command carries \<open>-1\<close>.
\<close>

lemma parseVoice_range:
  assumes pv: "parseVoice raw conf = Inr v"
  shows "(cellIndex v = -1 \<or> (0 \<le> cellIndex v \<and> cellIndex v \<le> 35)) \<and>
         (action v = V_fire \<or> action v = V_place \<longrightarrow> 0 \<le> cellIndex v \<and> cellIndex v \<le> 35) \<and>
         (action v = V_abort \<or> action v = V_unknown \<longrightarrow> cellIndex v = -1)"
proof -
  let ?t = "normalise raw"
  let ?base = "\<lparr>transcript = raw, action = V_unknown, cellIndex = -1, coord = [],
                 confidence = conf\<rparr>"
  show ?thesis
  proof (cases "starts_with ''abort'' ?t \<or> starts_with ''cancel'' ?t \<or> starts_with ''stop'' ?t")
    case True
    with pv have "v = ?base\<lparr>action := V_abort\<rparr>"
      by (simp add: parseVoice_def Let_def)
    then show ?thesis by simp
  next
    case nab: False
    show ?thesis
    proof (cases "match_command ?t")
      case None
      with pv nab have "v = ?base" by (simp add: parseVoice_def Let_def)
      then show ?thesis by simp
    next
      case (Some m)
      obtain verb word d where m: "m = (verb, word, d)" by (cases m)
      show ?thesis
      proof (cases "NATO word")
        case (Letter ch)
        let ?col = "int (code ch) - 97"
        let ?row = "int (code d) - 48 - 1"
        show ?thesis
        proof (cases "?col < 0 \<or> ?col \<ge> GRID \<or> ?row < 0 \<or> ?row \<ge> GRID")
          case True
          with pv nab Some m Letter have "v = ?base"
            by (simp add: parseVoice_def Let_def)
          then show ?thesis by simp
        next
          case False
          with pv nab Some m Letter
          have ci: "cellIndex v = ?row * GRID + ?col"
            and ac: "action v = V_fire \<or> action v = V_place"
            by (auto simp: parseVoice_def Let_def split: if_splits)
          from False have "0 \<le> ?row * 6 + ?col \<and> ?row * 6 + ?col \<le> 35"
            by (intro cell_range) (simp_all add: GRID_def)
          with ci ac show ?thesis by (auto simp: GRID_def)
        qed
      next
        case InheritedFunction
        with pv nab Some m show ?thesis by (simp add: parseVoice_def Let_def)
      next
        case Undefined
        with pv nab Some m have "v = ?base" by (simp add: parseVoice_def Let_def)
        then show ?thesis by simp
      qed
    qed
  qed
qed

subsection \<open>C1: a shot is applied after its verification\<close>




subsection \<open>C2: stage events out of order\<close>

text \<open>
  Claim C2 says that each of the seven stage events is a no-op when the ProofContext is
  not in the stage that precedes it. The reducer guards four of them
  (\<open>guarded_stage_events_noop\<close>); \<^verbatim>\<open>ZK_PROOF_BEGIN\<close>, \<^verbatim>\<open>ZK_VERIFY_BEGIN\<close> and
  \<^verbatim>\<open>ZK_VERIFY_FAILURE\<close> have no guard. In the blank state, whose ProofContext is
  idle, \<^verbatim>\<open>ZK_PROOF_BEGIN\<close> moves the ProofContext to \<^verbatim>\<open>PROOF_GENERATION\<close>,
  \<^verbatim>\<open>ZK_VERIFY_FAILURE\<close> moves it to \<^verbatim>\<open>VERIFICATION_FAILURE\<close>, and
  \<^verbatim>\<open>ZK_VERIFY_BEGIN\<close> appends a log entry.
\<close>

theorem unguarded_stage_events:
  "state (zkProof blankGame) = IDLE \<and>
   state (zkProof (gameReducer clock0 blankGame ZK_PROOF_BEGIN)) = PROOF_GENERATION \<and>
   state (zkProof (gameReducer clock0 blankGame (ZK_VERIFY_FAILURE ''rejected''))) =
     VERIFICATION_FAILURE \<and>
   length (log (gameReducer clock0 blankGame ZK_VERIFY_BEGIN)) = length (log blankGame) + 1"
  by code_simp

subsection \<open>C3: one settlement per stake\<close>

text \<open>
  Claim C3 says that a deducted stake is settled by exactly one ledger event, and that a
  win credit and a refund never both occur for one session, whatever the interleaving
  of fire resolution and abort. \<^verbatim>\<open>handleAbort\<close> does not stop a running
  \<^verbatim>\<open>handleFire\<close>: the player of session 1234 (stake 10, balance 190 after the stake)
  fires at the opponent's unit, aborts during the witness generation and is refunded;
  the fire handler runs on, finds the hit in its snapshot and credits the prize. The
  ledger then holds a refund and a win for session 1234, and the balance is 220.
\<close>

theorem abort_then_win_settles_twice:
  "fire_accepted battle_app 5 \<and>
   map_option balance (profile battle_app) = Some 190 \<and>
   map_option (ledger_events Refund 1234) (profile fire_after_abort) =
     Some [\<lparr>tx_id = ''TX77'', tx_type = Refund, amount = 10, tx_ts = ''Nov 3'',
            status = Confirmed, label = RefundAbortedLabel 1234, sessionId = Some 1234\<rparr>] \<and>
   map_option (ledger_events Win 1234) (profile fire_after_abort) =
     Some [\<lparr>tx_id = ''TX00'', tx_type = Win, amount = 20, tx_ts = ''Nov 3'',
            status = Confirmed, label = WinLabel 1234 20, sessionId = Some 1234\<rparr>] \<and>
   map_option balance (profile fire_after_abort) = Some 220"
  by code_simp

subsection \<open>C4: the phase moves forward\<close>

text \<open>
  Claim C4 says that no action of the reducer moves the phase backwards. \<^verbatim>\<open>GAME_RESET\<close>
  does: it maps the battle state of the concrete session to the blank state, whose
  phase is setup.
\<close>

theorem reset_regresses_phase:
  "phase battle_game = Battle \<and> phase (gameReducer clock0 battle_game GAME_RESET) = Setup"
  by code_simp

text \<open>
  Claim C4, amended. Within a session the phase never moves backwards: along every
  sequence of actions that contains none of \<^verbatim>\<open>GAME_INIT\<close>, \<^verbatim>\<open>GAME_RESET\<close> and
  \<^verbatim>\<open>GAME_RESTORE\<close>, and in which \<^verbatim>\<open>GAME_READY\<close> arrives in setup or placement and
  \<^verbatim>\<open>BATTLE_BEGIN\<close> before the end, the rank of the phase does not decrease. The three
  excluded actions set the phase to setup, to setup and to the phase of the restored
  snapshot; \<^verbatim>\<open>GAME_READY\<close> and \<^verbatim>\<open>BATTLE_BEGIN\<close> set placement and battle from any
  phase.
\<close>

theorem phase_monotone_within_session:
  "(session_run s as \<longrightarrow> phase_rank (phase s) \<le> phase_rank (phase (steps as s))) \<and>
   phase (gameReducer c s (GAME_INIT sid' stake' foeUnit')) = Setup \<and>
   phase (gameReducer c s GAME_RESET) = Setup \<and>
   phase (gameReducer c s (GAME_RESTORE payload)) = phase payload \<and>
   phase (gameReducer c s (GAME_READY txId)) = Placement \<and>
   phase (gameReducer c s (BATTLE_BEGIN turn)) = Battle"
  by (simp add: phase_run reducer_defs blankGame_def)

text \<open>The amended claim C4 on the concrete session, from its initialisation to its end.\<close>

theorem phase_monotone_within_session_witness:
  "session_run init_game session_actions \<and>
   phase init_game = Setup \<and>
   phase (steps session_actions init_game) = Ended \<and>
   phase_rank (phase init_game) \<le> phase_rank (phase (steps session_actions init_game))"
proof -
  have r: "session_run init_game session_actions" by code_simp
  have p: "phase init_game = Setup" "phase (steps session_actions init_game) = Ended"
    by code_simp+
  from phase_monotone_within_session [of init_game session_actions clock0 0 0 0 blankGame "[]" True] r p
  show ?thesis by simp
qed

subsection \<open>C5: abort and the running pipeline\<close>

text \<open>
  Claim C5 says that an abort issued while the ProofContext is in an in-flight stage
  never resets the session or issues a refund. \<^verbatim>\<open>handleAbort\<close> has no such guard:
  issued during the witness generation of the concrete session it resets the game to
  the blank state and raises the balance from 190 to 200.
\<close>

theorem abort_during_pipeline:
  "state (zkProof (game (fire_start env0 5 battle_app))) = WITNESS_GENERATION \<and>
   zkBusy (game (fire_start env0 5 battle_app)) \<and>
   game fire_aborted = blankGame \<and>
   map_option balance (profile (fire_start env0 5 battle_app)) = Some 190 \<and>
   map_option balance (profile fire_aborted) = Some 200"
  by code_simp

text \<open>
  Claim C5, amended. Abort is honoured in every ProofContext state, the in-flight
  stages included. Whenever a stake is held (a profile is present, the stake was
  deducted and the phase is not ended), \<^verbatim>\<open>handleAbort\<close> resets the game to the blank
  state, clears the busy flag, dispatches \<^verbatim>\<open>GAME_RESET\<close> and nothing else, credits
  exactly the stake and appends one refund record for the session.
\<close>

theorem abort_honoured_in_every_stage:
  assumes "profile app = Some p" and "stakeDeducted (game app)" and "phase (game app) \<noteq> Ended"
  shows "game (handleAbort e app) = blankGame \<and>
         \<not> busy (handleAbort e app) \<and>
         dispatched (handleAbort e app) = dispatched app @ [GAME_RESET] \<and>
         map_option balance (profile (handleAbort e app)) = Some (balance p + stake (game app)) \<and>
         map_option (ledger_events Refund (sid (game app))) (profile (handleAbort e app)) =
           Some (ledger_events Refund (sid (game app)) p @
             [\<lparr>tx_id = txIdAt e 0, tx_type = Refund, amount = stake (game app),
               tx_ts = datetsAt e 0, status = Confirmed,
               label = RefundAbortedLabel (sid (game app)),
               sessionId = Some (sid (game app))\<rparr>])"
  using assms by (simp add: handleAbort_def dispatch_def withTx_def ledger_events_def Let_def)

text \<open>The amended claim C5 on the concrete session, during the witness generation.\<close>

theorem abort_honoured_witness:
  "profile (fire_start env0 5 battle_app) = Some staked_player \<and>
   stakeDeducted (game (fire_start env0 5 battle_app)) \<and>
   phase (game (fire_start env0 5 battle_app)) \<noteq> Ended \<and>
   zkBusy (game (fire_start env0 5 battle_app)) \<and>
   game (handleAbort env1 (fire_start env0 5 battle_app)) = blankGame \<and>
   map_option balance (profile (handleAbort env1 (fire_start env0 5 battle_app))) = Some 200"
proof -
  have h1: "profile (fire_start env0 5 battle_app) = Some staked_player" by code_simp
  have h2: "stakeDeducted (game (fire_start env0 5 battle_app))" by code_simp
  have h3: "phase (game (fire_start env0 5 battle_app)) \<noteq> Ended" by code_simp
  have h4: "zkBusy (game (fire_start env0 5 battle_app))" by code_simp
  have v: "balance staked_player + stake (game (fire_start env0 5 battle_app)) = 200"
    by code_simp
  from abort_honoured_in_every_stage [OF h1 h2 h3, of env1] h1 h2 h3 h4 v
  show ?thesis by simp
qed

subsection \<open>C6: commands while a pipeline is in flight\<close>

text \<open>
  What the guards of the two handlers give. While the ProofContext is in an in-flight
  stage, \<^verbatim>\<open>canFire\<close> is false and \<^verbatim>\<open>handleFire\<close> returns without dispatching.
  While the busy flag is set, \<^verbatim>\<open>handleFire\<close> and \<^verbatim>\<open>handlePlace\<close> both return
  without dispatching; \<^verbatim>\<open>handlePlace\<close> also does so whenever the phase is not
  placement or the unit is already placed, hence in every battle. An accepted Fire puts
  the ProofContext in flight and sets the busy flag before its first \<^verbatim>\<open>await\<close>, so a
  second Fire issued right after it changes nothing.
\<close>

lemma inflight_commands_are_noops:
  "(zkBusy (game app) \<longrightarrow> \<not> canFire (game app) \<and> handleFire e i app = app) \<and>
   (busy app \<longrightarrow> handleFire e i app = app \<and> handlePlace e i app = app) \<and>
   (phase (game app) \<noteq> Placement \<or> myUnit (game app) \<noteq> -1 \<longrightarrow> handlePlace e i app = app) \<and>
   (fire_accepted app i \<longrightarrow>
      zkBusy (game (fire_start e i app)) \<and> busy (fire_start e i app) \<and>
      handleFire e' j (fire_start e i app) = fire_start e i app)"
proof -
  have a: "zkBusy (game app) \<longrightarrow> \<not> canFire (game app) \<and> handleFire e i app = app"
    by (simp add: canFire_def handleFire_def fire_accepted_def)
  have b: "busy app \<longrightarrow> handleFire e i app = app \<and> handlePlace e i app = app"
    by (simp add: busy_fire_noop handlePlace_def place_accepted_def)
  have c: "phase (game app) \<noteq> Placement \<or> myUnit (game app) \<noteq> -1 \<longrightarrow> handlePlace e i app = app"
    by (auto simp: handlePlace_def place_accepted_def)
  have d1: "busy (fire_start e i app)"
    by (simp add: fire_start_def dispatch_def)
  have d2: "zkBusy (game (fire_start e i app))"
    by (simp add: fire_start_def dispatch_def zkBusy_def reducer_defs blankZK_def)
  from a b c d1 d2 busy_fire_noop [OF d1] show ?thesis by blast
qed

text \<open>
  Claim C6 says that while the ProofContext is in one of the four in-flight stages a
  new Fire or Place command dispatches nothing. The single-flight flag that should
  ensure this for \<^verbatim>\<open>handlePlace\<close>, which does not read the ProofContext, is cleared
  by \<^verbatim>\<open>handleAbort\<close> while \<^verbatim>\<open>handleFire\<close> is still running. The player aborts a
  fire during its witness generation and starts a new game at once; the fire handler
  that outlived the abort dispatches \<^verbatim>\<open>ZK_PROOF_BEGIN\<close>, which the reducer applies
  without a stage guard, on the new session in placement. The ProofContext is then in
  \<^verbatim>\<open>PROOF_GENERATION\<close> with the busy flag clear, and the Place command at cell 3 is
  accepted: it dispatches \<^verbatim>\<open>UNIT_PLACE\<close> and places the unit.
\<close>

theorem place_accepted_during_proof:
  "phase (game stale_placement_app) = Placement \<and>
   state (zkProof (game stale_placement_app)) = PROOF_GENERATION \<and>
   zkBusy (game stale_placement_app) \<and>
   myUnit (game stale_placement_app) = -1 \<and>
   UNIT_PLACE 3 \<notin> set (dispatched stale_placement_app) \<and>
   UNIT_PLACE 3 \<in> set (dispatched (handlePlace env1 3 stale_placement_app)) \<and>
   myUnit (game (handlePlace env1 3 stale_placement_app)) = 3"
proof -
  have before: "phase (game stale_placement_app) = Placement"
    "state (zkProof (game stale_placement_app)) = PROOF_GENERATION"
    "zkBusy (game stale_placement_app)"
    "myUnit (game stale_placement_app) = -1"
    "UNIT_PLACE 3 \<notin> set (dispatched stale_placement_app)"
    by code_simp+
  have after: "UNIT_PLACE 3 \<in> set (dispatched (handlePlace env1 3 stale_placement_app))"
    "myUnit (game (handlePlace env1 3 stale_placement_app)) = 3"
    by (simp_all add: handlePlace_def place_accepted_def place_start_def place_commit_def
          dispatch_def stale_placement_app_eval blankGame_def reducer_defs Let_def)
  from before after show ?thesis by blast
qed

subsection \<open>C7: after a failed verification\<close>

text \<open>
  Claim C7 says that after \<^verbatim>\<open>ZK_VERIFY_FAILURE\<close> the ProofContext stays in
  \<^verbatim>\<open>VERIFICATION_FAILURE\<close> under every action but \<^verbatim>\<open>ZK_RESET\<close> and
  \<^verbatim>\<open>ZK_WITNESS_BEGIN\<close>. \<^verbatim>\<open>GAME_RESET\<close> is neither, and returns the blank state,
  whose ProofContext is idle.
\<close>

theorem failure_cleared_by_game_reset:
  "state (zkProof (gameReducer clock0 battle_game (ZK_VERIFY_FAILURE ''rejected''))) =
     VERIFICATION_FAILURE \<and>
   state (zkProof (gameReducer clock1
            (gameReducer clock0 battle_game (ZK_VERIFY_FAILURE ''rejected'')) GAME_RESET)) = IDLE"
  by code_simp

text \<open>
  Claim C7, amended. \<^verbatim>\<open>ZK_VERIFY_FAILURE\<close> stores the error message, gives the turn
  back to the player and puts the ProofContext in \<^verbatim>\<open>VERIFICATION_FAILURE\<close>; the
  ProofContext then stays there along every sequence of actions other than
  \<^verbatim>\<open>ZK_RESET\<close>, \<^verbatim>\<open>ZK_WITNESS_BEGIN\<close> and the three actions that replace the whole
  session (\<^verbatim>\<open>GAME_INIT\<close>, \<^verbatim>\<open>GAME_RESET\<close>, \<^verbatim>\<open>GAME_RESTORE\<close>). Nothing is said here of
  \<^verbatim>\<open>ZK_PROOF_BEGIN\<close>.
\<close>

theorem failure_persists:
  "errorMsg (zkProof (gameReducer c s (ZK_VERIFY_FAILURE e))) = e \<and>
   myTurn (gameReducer c s (ZK_VERIFY_FAILURE e)) \<and>
   state (zkProof (gameReducer c s (ZK_VERIFY_FAILURE e))) = VERIFICATION_FAILURE \<and>
   ((\<forall>x \<in> set as. keeps_failure (snd x)) \<longrightarrow>
      state (zkProof (steps as (gameReducer c s (ZK_VERIFY_FAILURE e)))) = VERIFICATION_FAILURE)"
proof -
  have f: "state (zkProof (gameReducer c s (ZK_VERIFY_FAILURE e))) = VERIFICATION_FAILURE"
    by (rule failure_first)
  have "(\<forall>x \<in> set as. keeps_failure (snd x)) \<longrightarrow>
      state (zkProof (steps as (gameReducer c s (ZK_VERIFY_FAILURE e)))) = VERIFICATION_FAILURE"
    using failure_run [OF _ f] by blast
  with failure_first [of c s e] show ?thesis by blast
qed

text \<open>The amended claim C7 on the concrete session, with four late actions.\<close>

theorem failure_persists_witness:
  "list_all (\<lambda>x. keeps_failure (snd x)) late_actions \<and>
   errorMsg (zkProof (gameReducer clock0 battle_game (ZK_VERIFY_FAILURE ''rejected''))) =
     ''rejected'' \<and>
   state (zkProof (steps late_actions
            (gameReducer clock0 battle_game (ZK_VERIFY_FAILURE ''rejected'')))) =
     VERIFICATION_FAILURE"
proof -
  have h: "list_all (\<lambda>x. keeps_failure (snd x)) late_actions"
    by (simp add: late_actions_def)
  then have "\<forall>x \<in> set late_actions. keeps_failure (snd x)"
    by (simp add: list_all_iff)
  with failure_persists [of clock0 battle_game "''rejected''" late_actions] h
  show ?thesis by simp
qed

subsection \<open>C8: the resolution of a shot\<close>

text \<open>
  Claim C8. In a battle state whose opponent unit is on cell \<open>F\<close>, an accepted fire at
  \<open>F\<close> resolves as a hit, marks the cell hit on the foe grid, ends the session with the
  player as winner and credits exactly twice the stake, with one win record; an
  accepted fire at another cell resolves as a miss, marks that cell miss and passes the
  turn: the player's turn flag is cleared, the balance is left alone, and the enemy
  strikes a cell of the player's grid if one is left. A fire is accepted under the
  guards of \<^verbatim>\<open>handleFire\<close>: the handler is not busy, \<^verbatim>\<open>canFire\<close> holds (battle, the
  player's turn, no pipeline in flight) and the cell is fog or targeted.
\<close>

theorem fire_resolution:
  assumes acc: "fire_accepted app index" and prof: "profile app = Some p"
  shows "if index = foeUnit (game app)
         then isHit (zkProof (game (fire_until_verified e index app))) \<and>
              cell_at (foeGrid (game (handleFire e index app))) index = Some Hit \<and>
              phase (game (handleFire e index app)) = Ended \<and>
              winner (game (handleFire e index app)) = You \<and>
              map_option balance (profile (handleFire e index app)) =
                Some (balance p + 2 * stake (game app)) \<and>
              map_option (ledger_events Win (sid (game app))) (profile (handleFire e index app)) =
                Some (ledger_events Win (sid (game app)) p @
                  [\<lparr>tx_id = txIdAt e 2, tx_type = Win, amount = 2 * stake (game app),
                    tx_ts = datetsAt e 0, status = Confirmed,
                    label = WinLabel (sid (game app)) (2 * stake (game app)),
                    sessionId = Some (sid (game app))\<rparr>])
         else \<not> isHit (zkProof (game (fire_until_verified e index app))) \<and>
              cell_at (foeGrid (game (fire_through_shot e index app))) index = Some Miss \<and>
              \<not> myTurn (game (fire_through_shot e index app)) \<and>
              phase (game (fire_through_shot e index app)) = Battle \<and>
              cell_at (foeGrid (game (handleFire e index app))) index = Some Miss \<and>
              map_option balance (profile (handleFire e index app)) = Some (balance p) \<and>
              (enemy_avail (myGrid (game app)) = [] \<or>
               ENEMY_STRIKE (enemy_target e (game app))
                   (enemy_target e (game app) = myUnit (game app))
                 \<in> set (dispatched (handleFire e index app)))"
proof -
  from acc have rng: "0 \<le> index"
    by (auto simp: fire_accepted_def dest: cell_at_Some_range)
  from acc have ph: "phase (game app) = Battle"
    by (simp add: fire_accepted_def canFire_def)
  show ?thesis
  proof (cases "index = foeUnit (game app)")
    case True
    have hf: "handleFire e index app = fire_win e (game app) (fire_through_shot e index app)"
      using acc True by (simp add: handleFire_unfold)
    have grid: "cell_at (foeGrid (game (handleFire e index app))) index = Some Hit"
      unfolding hf using True rng by (simp add: win_fields shot_frame cell_at_set_cell)
    have pr: "profile (handleFire e index app) =
       Some (withTx (txIdAt e 2) (datetsAt e 0)
               (p\<lparr>balance := balance p + stake (game app) * 2, wins := wins p + 1\<rparr>)
               Win (stake (game app) * 2) Confirmed
               (WinLabel (sid (game app)) (stake (game app) * 2)) (Some (sid (game app))))"
      unfolding hf by (rule win_fields(4)) (simp add: shot_frame prof)
    have fin: "phase (game (handleFire e index app)) = Ended"
      "winner (game (handleFire e index app)) = You"
      unfolding hf by (simp_all add: win_fields)
    have hitv: "isHit (zkProof (game (fire_until_verified e index app)))"
      using True by (simp add: verified_zk)
    have led: "map_option balance (profile (handleFire e index app)) =
                Some (balance p + 2 * stake (game app))"
      "map_option (ledger_events Win (sid (game app))) (profile (handleFire e index app)) =
                Some (ledger_events Win (sid (game app)) p @
                  [\<lparr>tx_id = txIdAt e 2, tx_type = Win, amount = 2 * stake (game app),
                    tx_ts = datetsAt e 0, status = Confirmed,
                    label = WinLabel (sid (game app)) (2 * stake (game app)),
                    sessionId = Some (sid (game app))\<rparr>])"
      by (simp_all add: pr withTx_def ledger_events_def mult.commute)
    show ?thesis
      using True grid fin hitv led by simp
  next
    case False
    let ?shot = "fire_through_shot e index app"
    let ?wait = "fire_enemy_log e ?shot"
    let ?struck = "fire_enemy_strike e ?wait"
    have hf: "handleFire e index app =
        (if enemy_hits e ?wait then fire_loss e (game app) ?struck else ?struck)"
      using acc False by (simp add: handleFire_unfold)
    have g1: "cell_at (foeGrid (game ?shot)) index = Some Miss"
      using False rng by (simp add: shot_frame cell_at_set_cell)
    have g2: "foeGrid (game (handleFire e index app)) = foeGrid (game ?shot)"
      by (simp add: hf loss_frame enemy_strike_frame enemy_log_frame)
    have pb: "map_option balance (profile ?struck) = Some (balance p)"
      by (simp add: enemy_strike_frame enemy_log_frame shot_frame prof)
    have b: "map_option balance (profile (handleFire e index app)) = Some (balance p)"
    proof (cases "enemy_hits e ?wait")
      case True
      then show ?thesis by (simp only: hf if_True loss_frame(2) pb)
    next
      case False
      then show ?thesis by (simp only: hf if_False pb)
    qed
    have tgt: "enemy_target e (game ?wait) = enemy_target e (game app)"
      by (rule enemy_target_cong) (simp add: enemy_log_frame shot_frame)
    have strike: "enemy_avail (myGrid (game app)) = [] \<or>
        ENEMY_STRIKE (enemy_target e (game app)) (enemy_target e (game app) = myUnit (game app))
          \<in> set (dispatched (handleFire e index app))"
    proof (cases "enemy_avail (myGrid (game app)) = []")
      case True
      then show ?thesis by simp
    next
      case ne: False
      then have "enemy_avail (myGrid (game ?wait)) \<noteq> []"
        by (simp add: enemy_log_frame shot_frame)
      then have "ENEMY_STRIKE (enemy_target e (game ?wait))
           (enemy_target e (game ?wait) = myUnit (game ?wait)) \<in> set (dispatched ?struck)"
        by (rule enemy_strike_dispatched)
      then have "ENEMY_STRIKE (enemy_target e (game app))
           (enemy_target e (game app) = myUnit (game app)) \<in> set (dispatched ?struck)"
        by (simp add: tgt enemy_log_frame shot_frame)
      then show ?thesis
        using loss_frame(3) [of ?struck e "game app"] by (auto simp: hf)
    qed
    show ?thesis
      using False g1 b strike by (simp add: verified_zk g2 shot_frame ph)
  qed
qed

text \<open>Claim C8 on the concrete session: the fire at cell 5 hits, the fire at cell 4 misses.\<close>

theorem fire_resolution_witness:
  "fire_accepted battle_app 5 \<and> fire_accepted battle_app 4 \<and>
   profile battle_app = Some staked_player \<and> foeUnit (game battle_app) = 5 \<and>
   cell_at (foeGrid (game (handleFire env0 5 battle_app))) 5 = Some Hit \<and>
   phase (game (handleFire env0 5 battle_app)) = Ended \<and>
   winner (game (handleFire env0 5 battle_app)) = You \<and>
   map_option balance (profile (handleFire env0 5 battle_app)) = Some 210 \<and>
   cell_at (foeGrid (game (handleFire env0 4 battle_app))) 4 = Some Miss \<and>
   \<not> myTurn (game (fire_through_shot env0 4 battle_app)) \<and>
   map_option balance (profile (handleFire env0 4 battle_app)) = Some 190"
proof -
  have a5: "fire_accepted battle_app 5" and a4: "fire_accepted battle_app 4"
    using fire_accepted_in_battle by simp_all
  have p: "profile battle_app = Some staked_player"
    by code_simp
  have v: "foeUnit (game battle_app) = 5" "stake (game battle_app) = 10"
    "balance staked_player = 190"
    by code_simp+
  from fire_resolution [OF a5 p, of env0] fire_resolution [OF a4 p, of env0] a5 a4 p v
  show ?thesis by simp
qed

subsection \<open>C9: the reducer and the clock\<close>

text \<open>
  Claim C9 says that the reducer is pure and deterministic: two evaluations on the same
  state and action give the same state, timestamps included. The reducer reads the
  clock: the same \<^verbatim>\<open>ZK_WITNESS_BEGIN\<close> on the blank state evaluated at two clock
  readings gives two states, which differ in \<^verbatim>\<open>startedAt\<close>.
\<close>

theorem reducer_reads_clock:
  "startedAt (zkProof (gameReducer clock0 blankGame (ZK_WITNESS_BEGIN 0))) = 0 \<and>
   startedAt (zkProof (gameReducer clock1 blankGame (ZK_WITNESS_BEGIN 0))) = 1000 \<and>
   gameReducer clock0 blankGame (ZK_WITNESS_BEGIN 0) \<noteq>
     gameReducer clock1 blankGame (ZK_WITNESS_BEGIN 0)"
  by code_simp

subsection \<open>C10: the cell index of a voice command\<close>

text \<open>
  Claim C10 says that \<^verbatim>\<open>parseVoice\<close> returns, for every transcript, a command whose
  cell index is \<open>-1\<close> or a cell of the grid. Where it returns, that holds
  (\<open>parseVoice_range\<close>). On the transcript "Fire Constructor one" it does not return:
  the column word \<^verbatim>\<open>constructor\<close> finds the inherited property of the object
  \<^verbatim>\<open>NATO\<close>, a function, and the call of \<^verbatim>\<open>charCodeAt\<close> on it raises a TypeError.
\<close>

theorem parseVoice_constructor_throws:
  "(case parseVoice ''Fire Constructor one'' conf of
      Inl e \<Rightarrow> e = TypeError
    | Inr v \<Rightarrow> False)"
  by code_simp

end
